theory Spec2Isabelle
  imports Complex_Main "HOL-Library.Sublist"
begin

section \<open>The provider boundary\<close>

text \<open>
  The server talks to the Scenario API through \<^verbatim>\<open>fetch\<close> and reads the clock through
  \<^verbatim>\<open>Date.now()\<close>. Both are made explicit: a \<open>world\<close> holds the clock (milliseconds)
  and the log of the requests sent so far, oldest first; a \<open>provider\<close> answers a request
  sent in a given world with the time the exchange takes and its outcome.

  JavaScript numbers that the handlers only compare and pass on (\<^verbatim>\<open>numSamples\<close>,
  \<^verbatim>\<open>strength\<close>, \<^verbatim>\<open>scalingFactor\<close>, \<^verbatim>\<open>width\<close>, \<^verbatim>\<open>height\<close>) are reals: they arrive
  as JSON numbers, so \<^verbatim>\<open>NaN\<close> is not among them. An omitted argument
  (\<^verbatim>\<open>undefined\<close>) is \<open>None\<close>.
\<close>

datatype req_body =
    Txt2imgBody (body_modelId: string) (body_prompt: string) (body_numSamples: real)
      (body_width: real) (body_height: real) (body_negativePrompt: "string option")
  | Img2imgBody (body_modelId: string) (body_prompt: string) (body_image: string)
      (body_strength: real)
  | RemoveBackgroundBody (body_assetId: string)
  | UpscaleBody (body_assetId: string) (body_scalingFactor: real)

record request =
  req_method :: string
  req_endpoint :: string
  req_body :: "req_body option"

text \<open>
  The parsed response bodies the server reads, by the property it reads them through:
  \<^verbatim>\<open>result.job\<close> with \<^verbatim>\<open>jobId\<close>, \<^verbatim>\<open>status\<close> and \<^verbatim>\<open>metadata.assetIds\<close>
  (\<open>None\<close> when \<^verbatim>\<open>metadata\<close> or \<^verbatim>\<open>assetIds\<close> is missing), and
  \<^verbatim>\<open>assetResult.asset\<close> with \<^verbatim>\<open>url\<close>, \<^verbatim>\<open>properties?.width\<close> and
  \<^verbatim>\<open>properties?.height\<close> (\<open>None\<close> is \<^verbatim>\<open>undefined\<close>).
\<close>

record job =
  jobId :: string
  status :: string
  metadata_assetIds :: "string list option"

record asset =
  asset_url :: "string option"
  asset_width :: "real option"
  asset_height :: "real option"

datatype payload = JobPayload job | AssetPayload asset | OtherPayload

fun payload_job :: "payload \<Rightarrow> job option" where
  "payload_job (JobPayload j) = Some j"
| "payload_job _ = None"

fun payload_asset :: "payload \<Rightarrow> asset option" where
  "payload_asset (AssetPayload a) = Some a"
| "payload_asset _ = None"

text \<open>
  A response has its status code, its raw text and what \<^verbatim>\<open>response.json()\<close> yields
  (\<open>None\<close> when the text is not JSON and the call rejects). \<^verbatim>\<open>fetch\<close> itself either
  rejects or responds.
\<close>

record response =
  res_status :: nat
  res_text :: string
  res_json :: "payload option"

definition res_ok :: "response \<Rightarrow> bool" where
  "res_ok r = (200 \<le> res_status r \<and> res_status r \<le> 299)"

datatype fetch_outcome = Rejects | Responds response

record world =
  now :: int
  sent :: "request list"

type_synonym provider = "world \<Rightarrow> request \<Rightarrow> nat \<times> fetch_outcome"

text \<open>
  The errors the code throws, each constructor carrying what the message interpolates:
  \<^item> \<open>FetchFailed\<close>: \<^verbatim>\<open>fetch\<close> rejected;
  \<^item> \<open>ScenarioApiError s b\<close>: \<^verbatim>\<open>Error(`Scenario API error ${response.status}: ${error}`)\<close>;
  \<^item> \<open>JsonSyntaxError\<close>: \<^verbatim>\<open>response.json()\<close> rejected;
  \<^item> \<open>TypeError\<close>: a property read on \<^verbatim>\<open>undefined\<close>, or iterating over it;
  \<^item> \<open>JobFailed j\<close>: \<^verbatim>\<open>Error(`Job failed: ${JSON.stringify(result.job)}`)\<close>;
  \<^item> \<open>JobTimedOut m\<close>: \<^verbatim>\<open>Error(`Job timed out after ${maxWaitMs}ms`)\<close>.
\<close>

datatype error =
    FetchFailed
  | ScenarioApiError nat string
  | JsonSyntaxError
  | TypeError
  | JobFailed job
  | JobTimedOut int

section \<open>scenarioRequest\<close>

definition scenarioRequest ::
  "provider \<Rightarrow> string \<Rightarrow> string \<Rightarrow> req_body option \<Rightarrow> world \<Rightarrow> (error + payload) \<times> world" where
  "scenarioRequest P method endpoint body w =
     (let req = \<lparr>req_method = method, req_endpoint = endpoint, req_body = body\<rparr>;
          w' = \<lparr>now = now w + int (fst (P w req)), sent = sent w @ [req]\<rparr>
      in case snd (P w req) of
           Rejects \<Rightarrow> (Inl FetchFailed, w')
         | Responds r \<Rightarrow>
             if \<not> res_ok r then (Inl (ScenarioApiError (res_status r) (res_text r)), w')
             else (case res_json r of
                     None \<Rightarrow> (Inl JsonSyntaxError, w')
                   | Some p \<Rightarrow> (Inr p, w')))"

section \<open>waitForJob\<close>

text \<open>
  The loop of \<^verbatim>\<open>waitForJob\<close>, entered in world \<open>w\<close> with \<open>startTime\<close> already read.
  The two-second timer advances the clock by 2000; a timer that fires late is the same,
  for every test the loop makes, as a longer exchange before it.
\<close>

function waitForJob_loop ::
  "provider \<Rightarrow> string \<Rightarrow> int \<Rightarrow> int \<Rightarrow> world \<Rightarrow> (error + job) \<times> world" where
  "waitForJob_loop P jobId' maxWaitMs startTime w =
     (if now w - startTime < maxWaitMs then
        (case scenarioRequest P ''GET'' (''/jobs/'' @ jobId') None w of
           (Inl e, w1) \<Rightarrow> (Inl e, w1)
         | (Inr result, w1) \<Rightarrow>
             (case payload_job result of
                None \<Rightarrow> (Inl TypeError, w1)
              | Some j \<Rightarrow>
                  if status j = ''success'' then (Inr j, w1)
                  else if status j = ''failed'' then (Inl (JobFailed j), w1)
                  else waitForJob_loop P jobId' maxWaitMs startTime (w1\<lparr>now := now w1 + 2000\<rparr>)))
      else (Inl (JobTimedOut maxWaitMs), w))"
  by pat_completeness auto
termination
  apply (relation "measure (\<lambda>(P, j, maxWaitMs, startTime, w). nat (maxWaitMs - (now w - startTime)))")
   apply simp
  apply (auto simp: scenarioRequest_def Let_def
      split: fetch_outcome.splits if_splits option.splits)
  done

declare waitForJob_loop.simps [simp del]

definition waitForJob :: "provider \<Rightarrow> string \<Rightarrow> int option \<Rightarrow> world \<Rightarrow> (error + job) \<times> world" where
  "waitForJob P jobId' maxWaitMs w =
     waitForJob_loop P jobId' (case maxWaitMs of None \<Rightarrow> 120000 | Some m \<Rightarrow> m) (now w) w"

section \<open>The tool handlers\<close>

text \<open>
  Each handler returns the object it hands to \<^verbatim>\<open>JSON.stringify\<close>: the \<^verbatim>\<open>assets\<close>
  array of \<^verbatim>\<open>txt2img\<close> and \<^verbatim>\<open>img2img\<close>, the single object of
  \<^verbatim>\<open>remove_background\<close> and \<^verbatim>\<open>upscale\<close>. A field that is \<open>None\<close> is
  \<^verbatim>\<open>undefined\<close> and left out of the text. The objects \<^verbatim>\<open>img2img\<close> pushes have
  no \<^verbatim>\<open>width\<close> and \<^verbatim>\<open>height\<close>, those of \<^verbatim>\<open>remove_background\<close> neither.
\<close>

record descriptor =
  d_id :: string
  d_url :: "string option"
  d_width :: "real option"
  d_height :: "real option"

record edit_result =
  originalAssetId :: string
  newAssetId :: "string option"
  edit_url :: "string option"
  edit_width :: "real option"
  edit_height :: "real option"

definition txt2img_body ::
  "string \<Rightarrow> string option \<Rightarrow> real option \<Rightarrow> real option \<Rightarrow> real option \<Rightarrow> string option \<Rightarrow> req_body" where
  "txt2img_body prompt modelId numSamples width height negativePrompt =
     Txt2imgBody
       (case modelId of None \<Rightarrow> ''flux.1-pro'' | Some m \<Rightarrow> m)
       prompt
       (min 4 (max 1 (case numSamples of None \<Rightarrow> 1 | Some n \<Rightarrow> n)))
       (case width of None \<Rightarrow> 1024 | Some x \<Rightarrow> x)
       (case height of None \<Rightarrow> 1024 | Some x \<Rightarrow> x)
       (case negativePrompt of None \<Rightarrow> None | Some s \<Rightarrow> if s = [] then None else Some s)"

fun txt2img_assets ::
  "provider \<Rightarrow> string list \<Rightarrow> descriptor list \<Rightarrow> world \<Rightarrow> (error + descriptor list) \<times> world" where
  "txt2img_assets P [] assets w = (Inr assets, w)"
| "txt2img_assets P (assetId # rest) assets w =
     (case scenarioRequest P ''GET'' (''/assets/'' @ assetId) None w of
        (Inl e, w1) \<Rightarrow> (Inl e, w1)
      | (Inr assetResult, w1) \<Rightarrow>
          (case payload_asset assetResult of
             None \<Rightarrow> (Inl TypeError, w1)
           | Some a \<Rightarrow>
               txt2img_assets P rest
                 (assets @ [\<lparr>d_id = assetId, d_url = asset_url a,
                             d_width = asset_width a, d_height = asset_height a\<rparr>]) w1))"

definition txt2img ::
  "provider \<Rightarrow> string \<Rightarrow> string option \<Rightarrow> real option \<Rightarrow> real option \<Rightarrow> real option \<Rightarrow>
     string option \<Rightarrow> world \<Rightarrow> (error + descriptor list) \<times> world" where
  "txt2img P prompt modelId numSamples width height negativePrompt w =
     (case scenarioRequest P ''POST'' ''/generate/txt2img''
             (Some (txt2img_body prompt modelId numSamples width height negativePrompt)) w of
        (Inl e, w1) \<Rightarrow> (Inl e, w1)
      | (Inr result, w1) \<Rightarrow>
          (case payload_job result of
             None \<Rightarrow> (Inl TypeError, w1)
           | Some submitted \<Rightarrow>
               (case waitForJob P (jobId submitted) None w1 of
                  (Inl e, w2) \<Rightarrow> (Inl e, w2)
                | (Inr job, w2) \<Rightarrow>
                    (case metadata_assetIds job of
                       None \<Rightarrow> (Inl TypeError, w2)
                     | Some assetIds \<Rightarrow> txt2img_assets P assetIds [] w2))))"

definition img2img_body :: "string \<Rightarrow> string \<Rightarrow> string option \<Rightarrow> real option \<Rightarrow> req_body" where
  "img2img_body prompt imageUrl modelId strength =
     Img2imgBody
       (case modelId of None \<Rightarrow> ''flux.1-pro'' | Some m \<Rightarrow> m)
       prompt
       imageUrl
       (min 1 (max 0 (case strength of None \<Rightarrow> 75 / 100 | Some s \<Rightarrow> s)))"

fun img2img_assets ::
  "provider \<Rightarrow> string list \<Rightarrow> descriptor list \<Rightarrow> world \<Rightarrow> (error + descriptor list) \<times> world" where
  "img2img_assets P [] assets w = (Inr assets, w)"
| "img2img_assets P (assetId # rest) assets w =
     (case scenarioRequest P ''GET'' (''/assets/'' @ assetId) None w of
        (Inl e, w1) \<Rightarrow> (Inl e, w1)
      | (Inr assetResult, w1) \<Rightarrow>
          (case payload_asset assetResult of
             None \<Rightarrow> (Inl TypeError, w1)
           | Some a \<Rightarrow>
               img2img_assets P rest
                 (assets @ [\<lparr>d_id = assetId, d_url = asset_url a,
                             d_width = None, d_height = None\<rparr>]) w1))"

definition img2img ::
  "provider \<Rightarrow> string \<Rightarrow> string \<Rightarrow> string option \<Rightarrow> real option \<Rightarrow> world \<Rightarrow>
     (error + descriptor list) \<times> world" where
  "img2img P prompt imageUrl modelId strength w =
     (case scenarioRequest P ''POST'' ''/generate/img2img''
             (Some (img2img_body prompt imageUrl modelId strength)) w of
        (Inl e, w1) \<Rightarrow> (Inl e, w1)
      | (Inr result, w1) \<Rightarrow>
          (case payload_job result of
             None \<Rightarrow> (Inl TypeError, w1)
           | Some submitted \<Rightarrow>
               (case waitForJob P (jobId submitted) None w1 of
                  (Inl e, w2) \<Rightarrow> (Inl e, w2)
                | (Inr job, w2) \<Rightarrow>
                    (case metadata_assetIds job of
                       None \<Rightarrow> (Inl TypeError, w2)
                     | Some assetIds \<Rightarrow> img2img_assets P assetIds [] w2))))"

text \<open>
  \<^verbatim>\<open>job.metadata.assetIds[0]\<close> is \<^verbatim>\<open>undefined\<close> on an empty array, and the template
  \<^verbatim>\<open>`/assets/${newAssetId}`\<close> then reads \<^verbatim>\<open>/assets/undefined\<close>.
\<close>

definition first_assetId :: "string list \<Rightarrow> string option" where
  "first_assetId assetIds = (case assetIds of [] \<Rightarrow> None | a # _ \<Rightarrow> Some a)"

definition interpolate :: "string option \<Rightarrow> string" where
  "interpolate v = (case v of None \<Rightarrow> ''undefined'' | Some s \<Rightarrow> s)"


definition upscale_body :: "string \<Rightarrow> real option \<Rightarrow> req_body" where
  "upscale_body assetId scalingFactor =
     UpscaleBody assetId
       (if (case scalingFactor of None \<Rightarrow> 2 | Some s \<Rightarrow> s) = 4 then 4 else 2)"

definition upscale ::
  "provider \<Rightarrow> string \<Rightarrow> real option \<Rightarrow> world \<Rightarrow> (error + edit_result) \<times> world" where
  "upscale P assetId scalingFactor w =
     (case scenarioRequest P ''POST'' ''/edit/upscale''
             (Some (upscale_body assetId scalingFactor)) w of
        (Inl e, w1) \<Rightarrow> (Inl e, w1)
      | (Inr result, w1) \<Rightarrow>
          (case payload_job result of
             None \<Rightarrow> (Inl TypeError, w1)
           | Some submitted \<Rightarrow>
               (case waitForJob P (jobId submitted) (Some 180000) w1 of
                  (Inl e, w2) \<Rightarrow> (Inl e, w2)
                | (Inr job, w2) \<Rightarrow>
                    (case metadata_assetIds job of
                       None \<Rightarrow> (Inl TypeError, w2)
                     | Some assetIds \<Rightarrow>
                         (case scenarioRequest P ''GET''
                                 (''/assets/'' @ interpolate (first_assetId assetIds)) None w2 of
                            (Inl e, w3) \<Rightarrow> (Inl e, w3)
                          | (Inr assetResult, w3) \<Rightarrow>
                              (case payload_asset assetResult of
                                 None \<Rightarrow> (Inl TypeError, w3)
                               | Some a \<Rightarrow>
                                   (Inr \<lparr>originalAssetId = assetId,
                                          newAssetId = first_assetId assetIds,
                                          edit_url = asset_url a,
                                          edit_width = asset_width a,
                                          edit_height = asset_height a\<rparr>, w3)))))))"

section \<open>The session router\<close>

text \<open>
  The \<^verbatim>\<open>/mcp\<close> handler and the table \<^verbatim>\<open>sessions\<close>. A transport object is known by
  the order of its construction (\<open>constructed\<close> counts the objects built so far, and the
  next \<^verbatim>\<open>new StreamableHTTPServerTransport\<close> gets that number). Every invocation of the
  handler has its own variables \<^verbatim>\<open>sessionId\<close> and \<^verbatim>\<open>transport\<close>, kept by request
  number; \<open>inv_constructed\<close> records that the invocation built its transport, and with it
  the callback that closes over these variables.
\<close>

type_synonym transport = nat

record invocation =
  inv_sessionId :: "string option"
  inv_transport :: transport
  inv_constructed :: bool

record gateway =
  sessions :: "string \<rightharpoonup> transport"
  constructed :: nat
  invocations :: "nat \<rightharpoonup> invocation"

text \<open>
  The handler up to its first \<^verbatim>\<open>await\<close>: it reads the header, looks the transport up
  (\<^verbatim>\<open>sessions.get(undefined)\<close> finds nothing) and builds a new one when none is found.
\<close>

definition mcp_route :: "nat \<Rightarrow> string option \<Rightarrow> gateway \<Rightarrow> gateway" where
  "mcp_route k header g =
     (case (case header of None \<Rightarrow> None | Some s \<Rightarrow> sessions g s) of
        Some t \<Rightarrow>
          g\<lparr>invocations := (invocations g)
               (k \<mapsto> \<lparr>inv_sessionId = header, inv_transport = t, inv_constructed = False\<rparr>)\<rparr>
      | None \<Rightarrow>
          g\<lparr>constructed := constructed g + 1,
            invocations := (invocations g)
               (k \<mapsto> \<lparr>inv_sessionId = header, inv_transport = constructed g,
                      inv_constructed = True\<rparr>)\<rparr>)"

text \<open>
  The callback \<^verbatim>\<open>onsessioninitialized\<close> of the transport built by invocation \<open>k\<close>:
  \<^verbatim>\<open>sessionId = id; sessions.set(id, transport)\<close>. An invocation that found its
  transport in the table built no callback.
\<close>

definition onsessioninitialized :: "nat \<Rightarrow> string \<Rightarrow> gateway \<Rightarrow> gateway" where
  "onsessioninitialized k id' g =
     (case invocations g k of
        None \<Rightarrow> g
      | Some c \<Rightarrow>
          if inv_constructed c then
            g\<lparr>sessions := (sessions g)(id' \<mapsto> inv_transport c),
              invocations := (invocations g)(k \<mapsto> c\<lparr>inv_sessionId := Some id'\<rparr>)\<rparr>
          else g)"

text \<open>
  The process runs one handler at a time up to its next \<^verbatim>\<open>await\<close>, so what happens to
  the table is a sequence of events: a request arrives and its handler runs to its first
  \<^verbatim>\<open>await\<close>, or the transport library calls the callback of an invocation with the id
  it took from \<^verbatim>\<open>sessionIdGenerator\<close>. When the library does so (inside
  \<^verbatim>\<open>transport.handleRequest\<close>, after \<^verbatim>\<open>server.connect\<close> has returned), and which
  id \<^verbatim>\<open>randomUUID\<close> gives, is not in the code: both are the events of the run.
  \<open>generated es\<close> lists the ids handed out in the run \<open>es\<close>.
\<close>

datatype event = Arrive nat "string option" | Initialized nat string

fun step :: "event \<Rightarrow> gateway \<Rightarrow> gateway" where
  "step (Arrive k header) g = mcp_route k header g"
| "step (Initialized k id') g = onsessioninitialized k id' g"

definition run :: "event list \<Rightarrow> gateway \<Rightarrow> gateway" where
  "run es g = fold step es g"



text \<open>The request the handlers send to resolve one asset id.\<close>

definition asset_request :: "string \<Rightarrow> request" where
  "asset_request a = \<lparr>req_method = ''GET'', req_endpoint = ''/assets/'' @ a, req_body = None\<rparr>"

text \<open>The status query of \<^verbatim>\<open>waitForJob\<close>.\<close>

definition job_request :: "string \<Rightarrow> request" where
  "job_request j = \<lparr>req_method = ''GET'', req_endpoint = ''/jobs/'' @ j, req_body = None\<rparr>"

text \<open>
  The polled status sequence of a job, as far as it is not terminal: \<open>pending_polls P j n w\<close>
  is the world reached from \<open>w\<close> when \<open>n\<close> status queries in a row are each answered
  with a job that is neither \<^verbatim>\<open>success\<close> nor \<^verbatim>\<open>failed\<close> and each followed by the
  two-second wait; \<open>None\<close> when one of these queries fails or sees a terminal status.
\<close>

fun pending_polls :: "provider \<Rightarrow> string \<Rightarrow> nat \<Rightarrow> world \<Rightarrow> world option" where
  "pending_polls P j 0 w = Some w"
| "pending_polls P j (Suc n) w =
     (case scenarioRequest P ''GET'' (''/jobs/'' @ j) None w of
        (Inl e, w1) \<Rightarrow> None
      | (Inr result, w1) \<Rightarrow>
          (case payload_job result of
             None \<Rightarrow> None
           | Some jb \<Rightarrow>
               if status jb = ''success'' \<or> status jb = ''failed'' then None
               else pending_polls P j n (w1\<lparr>now := now w1 + 2000\<rparr>)))"

section \<open>Concrete provider behaviour, for the examples\<close>

text \<open>
  \<open>scenario_provider final ready_at ids bad\<close> answers a submission with job
  \<^verbatim>\<open>j1\<close> after 100 ms; a status query after 50 ms with \<^verbatim>\<open>running\<close> while the
  clock is below \<open>ready_at\<close> and with \<open>final\<close> and the asset ids \<open>ids\<close> from then on;
  a descriptor query after 30 ms with the asset, or with status 404 and the text
  \<^verbatim>\<open>not found\<close> for an id in \<open>bad\<close>.
\<close>

definition world0 :: world where
  "world0 = \<lparr>now = 0, sent = []\<rparr>"

definition example_asset :: "string \<Rightarrow> asset" where
  "example_asset a =
     \<lparr>asset_url = Some (''https://x/'' @ a @ ''.png''),
      asset_width = Some 1024, asset_height = Some 1024\<rparr>"

definition not_found :: response where
  "not_found = \<lparr>res_status = 404, res_text = ''not found'', res_json = None\<rparr>"

definition scenario_provider :: "string \<Rightarrow> int \<Rightarrow> string list \<Rightarrow> string list \<Rightarrow> provider" where
  "scenario_provider final ready_at ids bad w req =
     (if req_method req = ''POST'' then
        (100, Responds \<lparr>res_status = 200, res_text = ''{job}'',
                res_json = Some (JobPayload \<lparr>jobId = ''j1'', status = ''queued'',
                                               metadata_assetIds = None\<rparr>)\<rparr>)
      else if take 6 (req_endpoint req) = ''/jobs/'' then
        (50, Responds \<lparr>res_status = 200, res_text = ''{job}'',
               res_json = Some (JobPayload
                 (if now w < ready_at
                  then \<lparr>jobId = drop 6 (req_endpoint req), status = ''running'',
                        metadata_assetIds = None\<rparr>
                  else \<lparr>jobId = drop 6 (req_endpoint req), status = final,
                        metadata_assetIds = Some ids\<rparr>))\<rparr>)
      else if take 8 (req_endpoint req) = ''/assets/''
              \<and> drop 8 (req_endpoint req) \<notin> set bad then
        (30, Responds \<lparr>res_status = 200, res_text = ''{asset}'',
               res_json = Some (AssetPayload (example_asset (drop 8 (req_endpoint req))))\<rparr>)
      else (30, Responds not_found))"

section \<open>The clock and the request log only grow\<close>

lemma scenarioRequest_now: "scenarioRequest P m e b w = (r, w') \<Longrightarrow> now w \<le> now w'"
  by (auto simp: scenarioRequest_def Let_def split: fetch_outcome.splits if_splits option.splits)

lemma scenarioRequest_sent:
  "sent (snd (scenarioRequest P m e b w)) =
     sent w @ [\<lparr>req_method = m, req_endpoint = e, req_body = b\<rparr>]"
  by (simp add: scenarioRequest_def Let_def split: fetch_outcome.splits option.splits)

lemma scenarioRequest_sent':
  "scenarioRequest P m e b w = (r, w') \<Longrightarrow>
     sent w' = sent w @ [\<lparr>req_method = m, req_endpoint = e, req_body = b\<rparr>]"
  by (metis scenarioRequest_sent snd_conv)

lemma waitForJob_loop_prefix:
  "prefix (sent w) (sent (snd (waitForJob_loop P j m s w)))"
proof (induction P j m s w rule: waitForJob_loop.induct)
  case (1 P j m s w)
  show ?case
  proof (cases "now w - s < m")
    case False
    then show ?thesis by (simp add: waitForJob_loop.simps)
  next
    case True
    obtain r w1 where req: "scenarioRequest P ''GET'' (''/jobs/'' @ j) None w = (r, w1)"
      by (cases "scenarioRequest P ''GET'' (''/jobs/'' @ j) None w")
    then have w1: "prefix (sent w) (sent w1)"
      by (simp add: scenarioRequest_sent')
    show ?thesis
    proof (cases r)
      case (Inl e)
      with True req w1 show ?thesis by (simp add: waitForJob_loop.simps [of P j m s w])
    next
      case (Inr result)
      show ?thesis
      proof (cases "payload_job result")
        case None
        with True req w1 Inr show ?thesis by (simp add: waitForJob_loop.simps [of P j m s w])
      next
        case (Some jb)
        show ?thesis
        proof (cases "status jb = ''success'' \<or> status jb = ''failed''")
          case True
          with \<open>now w - s < m\<close> req w1 Inr Some show ?thesis
            by (auto simp add: waitForJob_loop.simps [of P j m s w])
        next
          case False
          with \<open>now w - s < m\<close> req Inr Some
          have "prefix (sent (w1\<lparr>now := now w1 + 2000\<rparr>))
                  (sent (snd (waitForJob_loop P j m s (w1\<lparr>now := now w1 + 2000\<rparr>))))"
            using "1.IH" by simp
          with \<open>now w - s < m\<close> req w1 Inr Some False show ?thesis
            by (auto simp add: waitForJob_loop.simps [of P j m s w] intro: prefix_order.trans)
        qed
      qed
    qed
  qed
qed

lemma waitForJob_sent':
  "waitForJob P j m w = (r, w') \<Longrightarrow> \<exists>zs. sent w' = sent w @ zs"
  using waitForJob_loop_prefix [of w P j "case m of None \<Rightarrow> 120000 | Some d \<Rightarrow> d" "now w"]
  by (simp add: waitForJob_def prefix_def)

lemma txt2img_assets_prefix: "prefix (sent w) (sent (snd (txt2img_assets P ids acc w)))"
proof (induction ids arbitrary: acc w)
  case Nil
  show ?case by simp
next
  case (Cons a ids)
  obtain r w1 where req: "scenarioRequest P ''GET'' (''/assets/'' @ a) None w = (r, w1)"
    by (cases "scenarioRequest P ''GET'' (''/assets/'' @ a) None w")
  then have w1: "prefix (sent w) (sent w1)"
    by (simp add: scenarioRequest_sent')
  from Cons.IH [where w = w1] req w1 show ?case
    by (auto split: sum.splits option.splits intro: prefix_order.trans)
qed

lemma txt2img_assets_sent':
  "txt2img_assets P ids acc w = (r, w') \<Longrightarrow> \<exists>zs. sent w' = sent w @ zs"
  using txt2img_assets_prefix [of w P ids acc] by (simp add: prefix_def)

lemma img2img_assets_prefix: "prefix (sent w) (sent (snd (img2img_assets P ids acc w)))"
proof (induction ids arbitrary: acc w)
  case Nil
  show ?case by simp
next
  case (Cons a ids)
  obtain r w1 where req: "scenarioRequest P ''GET'' (''/assets/'' @ a) None w = (r, w1)"
    by (cases "scenarioRequest P ''GET'' (''/assets/'' @ a) None w")
  then have w1: "prefix (sent w) (sent w1)"
    by (simp add: scenarioRequest_sent')
  from Cons.IH [where w = w1] req w1 show ?case
    by (auto split: sum.splits option.splits intro: prefix_order.trans)
qed

lemma img2img_assets_sent':
  "img2img_assets P ids acc w = (r, w') \<Longrightarrow> \<exists>zs. sent w' = sent w @ zs"
  using img2img_assets_prefix [of w P ids acc] by (simp add: prefix_def)

lemma prefix_snoc_nth: "prefix (xs @ [x]) ys \<Longrightarrow> ys ! length xs = x"
  by (auto simp: prefix_def)



lemma upscale_prefix:
  "prefix (sent w @ [\<lparr>req_method = ''POST'', req_endpoint = ''/edit/upscale'',
                      req_body = Some (upscale_body assetId scalingFactor)\<rparr>])
     (sent (snd (upscale P assetId scalingFactor w)))"
  unfolding upscale_def prefix_def
  by (auto split: sum.splits option.splits prod.splits
      dest!: scenarioRequest_sent' waitForJob_sent')

section \<open>The provider client\<close>



section \<open>Parameter shaping\<close>

text \<open>
  Claim C10. The first request \<^verbatim>\<open>upscale\<close> sends is its submission, and the
  \<^verbatim>\<open>scalingFactor\<close> of its body is 4 when the argument is exactly 4 and 2 for every
  other argument, the omitted one included.
\<close>

theorem upscale_scalingFactor:
  "sent (snd (upscale P assetId scalingFactor w)) ! length (sent w) =
     \<lparr>req_method = ''POST'', req_endpoint = ''/edit/upscale'',
      req_body = Some (UpscaleBody assetId (if scalingFactor = Some 4 then 4 else 2))\<rparr>"
proof -
  have "upscale_body assetId scalingFactor =
          UpscaleBody assetId (if scalingFactor = Some 4 then 4 else 2)"
    by (simp add: upscale_body_def split: option.splits)
  with upscale_prefix [of w assetId scalingFactor P] show ?thesis
    by (simp add: prefix_snoc_nth)
qed

theorem upscale_scalingFactor_witness:
  "body_scalingFactor (the (req_body (sent (snd (upscale (scenario_provider ''success'' 0 [''b1''] []) ''a1'' (Some 3) world0)) ! 0))) = 2
   \<and> body_scalingFactor (the (req_body (sent (snd (upscale (scenario_provider ''success'' 0 [''b1''] []) ''a1'' (Some 8) world0)) ! 0))) = 2
   \<and> body_scalingFactor (the (req_body (sent (snd (upscale (scenario_provider ''success'' 0 [''b1''] []) ''a1'' None world0)) ! 0))) = 2
   \<and> body_scalingFactor (the (req_body (sent (snd (upscale (scenario_provider ''success'' 0 [''b1''] []) ''a1'' (Some 4) world0)) ! 0))) = 4"
  using upscale_scalingFactor [of "scenario_provider ''success'' 0 [''b1''] []" "''a1''" "Some 3" world0]
    upscale_scalingFactor [of "scenario_provider ''success'' 0 [''b1''] []" "''a1''" "Some 8" world0]
    upscale_scalingFactor [of "scenario_provider ''success'' 0 [''b1''] []" "''a1''" None world0]
    upscale_scalingFactor [of "scenario_provider ''success'' 0 [''b1''] []" "''a1''" "Some 4" world0]
  by (simp add: world0_def)



section \<open>Resolving asset ids\<close>

lemma txt2img_assets_ids:
  "txt2img_assets P ids acc w = (Inr ds, w') \<Longrightarrow>
     map d_id ds = map d_id acc @ ids \<and> sent w' = sent w @ map asset_request ids"
proof (induction ids arbitrary: acc w)
  case Nil
  then show ?case by auto
next
  case (Cons a ids)
  obtain r w1 where req: "scenarioRequest P ''GET'' (''/assets/'' @ a) None w = (r, w1)"
    by (cases "scenarioRequest P ''GET'' (''/assets/'' @ a) None w")
  then have w1: "sent w1 = sent w @ [asset_request a]"
    by (simp add: scenarioRequest_sent' asset_request_def)
  from Cons.prems req obtain p x where r: "r = Inr p" and p: "payload_asset p = Some x"
    by (auto split: sum.splits option.splits)
  with Cons.prems req
  have "txt2img_assets P ids
          (acc @ [\<lparr>d_id = a, d_url = asset_url x, d_width = asset_width x,
                     d_height = asset_height x\<rparr>]) w1 = (Inr ds, w')"
    by simp
  from Cons.IH [OF this] w1 show ?case by simp
qed

lemma img2img_assets_ids:
  "img2img_assets P ids acc w = (Inr ds, w') \<Longrightarrow>
     map d_id ds = map d_id acc @ ids \<and> sent w' = sent w @ map asset_request ids"
proof (induction ids arbitrary: acc w)
  case Nil
  then show ?case by auto
next
  case (Cons a ids)
  obtain r w1 where req: "scenarioRequest P ''GET'' (''/assets/'' @ a) None w = (r, w1)"
    by (cases "scenarioRequest P ''GET'' (''/assets/'' @ a) None w")
  then have w1: "sent w1 = sent w @ [asset_request a]"
    by (simp add: scenarioRequest_sent' asset_request_def)
  from Cons.prems req obtain p x where r: "r = Inr p" and p: "payload_asset p = Some x"
    by (auto split: sum.splits option.splits)
  with Cons.prems req
  have "img2img_assets P ids
          (acc @ [\<lparr>d_id = a, d_url = asset_url x, d_width = None, d_height = None\<rparr>]) w1 =
        (Inr ds, w')"
    by simp
  from Cons.IH [OF this] w1 show ?case by simp
qed

lemma scenarioRequest_served:
  assumes "snd (P w (asset_request a)) = Responds r"
    and "200 \<le> res_status r" and "res_status r \<le> 299" and "res_json r = Some p"
  shows "fst (scenarioRequest P ''GET'' (''/assets/'' @ a) None w) = Inr p"
  using assms by (simp add: scenarioRequest_def Let_def res_ok_def asset_request_def)

lemma txt2img_assets_served:
  assumes "\<forall>a\<in>set ids. \<forall>w0. \<exists>r. snd (P w0 (asset_request a)) = Responds r
             \<and> 200 \<le> res_status r \<and> res_status r \<le> 299
             \<and> res_json r = Some (AssetPayload (asset_of a))"
  shows "fst (txt2img_assets P ids acc w) =
           Inr (acc @ map (\<lambda>a. \<lparr>d_id = a, d_url = asset_url (asset_of a),
                                  d_width = asset_width (asset_of a),
                                  d_height = asset_height (asset_of a)\<rparr>) ids)"
  using assms
proof (induction ids arbitrary: acc w)
  case Nil
  show ?case by simp
next
  case (Cons a ids)
  from Cons.prems
  have "\<exists>r. snd (P w (asset_request a)) = Responds r \<and> 200 \<le> res_status r
          \<and> res_status r \<le> 299 \<and> res_json r = Some (AssetPayload (asset_of a))"
    by simp
  then obtain r where "snd (P w (asset_request a)) = Responds r"
    and "200 \<le> res_status r" and "res_status r \<le> 299"
    and "res_json r = Some (AssetPayload (asset_of a))"
    by blast
  then have "fst (scenarioRequest P ''GET'' (''/assets/'' @ a) None w) = Inr (AssetPayload (asset_of a))"
    by (rule scenarioRequest_served)
  then obtain w1 where "scenarioRequest P ''GET'' (''/assets/'' @ a) None w = (Inr (AssetPayload (asset_of a)), w1)"
    by (cases "scenarioRequest P ''GET'' (''/assets/'' @ a) None w") simp
  moreover from Cons.prems
  have "fst (txt2img_assets P ids
          (acc @ [\<lparr>d_id = a, d_url = asset_url (asset_of a), d_width = asset_width (asset_of a),
                     d_height = asset_height (asset_of a)\<rparr>]) w1) =
        Inr ((acc @ [\<lparr>d_id = a, d_url = asset_url (asset_of a), d_width = asset_width (asset_of a),
                     d_height = asset_height (asset_of a)\<rparr>]) @
             map (\<lambda>a. \<lparr>d_id = a, d_url = asset_url (asset_of a),
                                  d_width = asset_width (asset_of a),
                                  d_height = asset_height (asset_of a)\<rparr>) ids)"
    by (intro Cons.IH) simp
  ultimately show ?case by simp
qed

lemma img2img_assets_served:
  assumes "\<forall>a\<in>set ids. \<forall>w0. \<exists>r. snd (P w0 (asset_request a)) = Responds r
             \<and> 200 \<le> res_status r \<and> res_status r \<le> 299
             \<and> res_json r = Some (AssetPayload (asset_of a))"
  shows "fst (img2img_assets P ids acc w) =
           Inr (acc @ map (\<lambda>a. \<lparr>d_id = a, d_url = asset_url (asset_of a),
                                  d_width = None, d_height = None\<rparr>) ids)"
  using assms
proof (induction ids arbitrary: acc w)
  case Nil
  show ?case by simp
next
  case (Cons a ids)
  from Cons.prems
  have "\<exists>r. snd (P w (asset_request a)) = Responds r \<and> 200 \<le> res_status r
          \<and> res_status r \<le> 299 \<and> res_json r = Some (AssetPayload (asset_of a))"
    by simp
  then obtain r where "snd (P w (asset_request a)) = Responds r"
    and "200 \<le> res_status r" and "res_status r \<le> 299"
    and "res_json r = Some (AssetPayload (asset_of a))"
    by blast
  then have "fst (scenarioRequest P ''GET'' (''/assets/'' @ a) None w) = Inr (AssetPayload (asset_of a))"
    by (rule scenarioRequest_served)
  then obtain w1 where "scenarioRequest P ''GET'' (''/assets/'' @ a) None w = (Inr (AssetPayload (asset_of a)), w1)"
    by (cases "scenarioRequest P ''GET'' (''/assets/'' @ a) None w") simp
  moreover from Cons.prems
  have "fst (img2img_assets P ids
          (acc @ [\<lparr>d_id = a, d_url = asset_url (asset_of a), d_width = None, d_height = None\<rparr>]) w1) =
        Inr ((acc @ [\<lparr>d_id = a, d_url = asset_url (asset_of a), d_width = None, d_height = None\<rparr>]) @
             map (\<lambda>a. \<lparr>d_id = a, d_url = asset_url (asset_of a),
                                  d_width = None, d_height = None\<rparr>) ids)"
    by (intro Cons.IH) simp
  ultimately show ?case by simp
qed

lemma txt2img_assets_append:
  "txt2img_assets P pre acc w = (Inr ds1, w1) \<Longrightarrow>
     txt2img_assets P (pre @ rest) acc w = txt2img_assets P rest ds1 w1"
proof (induction pre arbitrary: acc w)
  case Nil
  then show ?case by simp
next
  case (Cons a pre)
  then show ?case
    by (auto split: sum.splits option.splits prod.splits)
qed

lemma img2img_assets_append:
  "img2img_assets P pre acc w = (Inr ds1, w1) \<Longrightarrow>
     img2img_assets P (pre @ rest) acc w = img2img_assets P rest ds1 w1"
proof (induction pre arbitrary: acc w)
  case Nil
  then show ?case by simp
next
  case (Cons a pre)
  then show ?case
    by (auto split: sum.splits option.splits prod.splits)
qed

text \<open>
  Claim C5. The resolution loops of \<^verbatim>\<open>txt2img\<close> and \<^verbatim>\<open>img2img\<close> send one
  descriptor request per asset id, in the order of the ids, and whenever they return, the
  descriptors carry exactly the ids of the input, in the input order. When the provider
  serves every id of the input, they do return, each descriptor built from the asset
  served for its id.
\<close>

theorem resolution_in_order:
  "(\<forall>ds w'. txt2img_assets P ids [] w = (Inr ds, w') \<longrightarrow>
       map d_id ds = ids \<and> sent w' = sent w @ map asset_request ids)
   \<and> (\<forall>ds w'. img2img_assets P ids [] w = (Inr ds, w') \<longrightarrow>
       map d_id ds = ids \<and> sent w' = sent w @ map asset_request ids)
   \<and> ((\<forall>a\<in>set ids. \<forall>w0. \<exists>r. snd (P w0 (asset_request a)) = Responds r
             \<and> 200 \<le> res_status r \<and> res_status r \<le> 299
             \<and> res_json r = Some (AssetPayload (asset_of a))) \<longrightarrow>
       fst (txt2img_assets P ids [] w) =
         Inr (map (\<lambda>a. \<lparr>d_id = a, d_url = asset_url (asset_of a),
                          d_width = asset_width (asset_of a),
                          d_height = asset_height (asset_of a)\<rparr>) ids)
       \<and> fst (img2img_assets P ids [] w) =
         Inr (map (\<lambda>a. \<lparr>d_id = a, d_url = asset_url (asset_of a),
                          d_width = None, d_height = None\<rparr>) ids))"
proof (intro conjI allI impI)
  fix ds w'
  assume "txt2img_assets P ids [] w = (Inr ds, w')"
  from txt2img_assets_ids [OF this]
  show "map d_id ds = ids" and "sent w' = sent w @ map asset_request ids"
    by simp_all
next
  fix ds w'
  assume "img2img_assets P ids [] w = (Inr ds, w')"
  from img2img_assets_ids [OF this]
  show "map d_id ds = ids" and "sent w' = sent w @ map asset_request ids"
    by simp_all
next
  assume served: "\<forall>a\<in>set ids. \<forall>w0. \<exists>r. snd (P w0 (asset_request a)) = Responds r
             \<and> 200 \<le> res_status r \<and> res_status r \<le> 299
             \<and> res_json r = Some (AssetPayload (asset_of a))"
  from txt2img_assets_served [OF served, of "[]" w]
  show "fst (txt2img_assets P ids [] w) =
         Inr (map (\<lambda>a. \<lparr>d_id = a, d_url = asset_url (asset_of a),
                          d_width = asset_width (asset_of a),
                          d_height = asset_height (asset_of a)\<rparr>) ids)"
    by simp
  from img2img_assets_served [OF served, of "[]" w]
  show "fst (img2img_assets P ids [] w) =
         Inr (map (\<lambda>a. \<lparr>d_id = a, d_url = asset_url (asset_of a),
                          d_width = None, d_height = None\<rparr>) ids)"
    by simp
qed


theorem resolution_in_order_witness:
  "fst (txt2img_assets (scenario_provider ''success'' 0 [] []) [''c'', ''a'', ''b''] [] world0) =
     Inr [\<lparr>d_id = ''c'', d_url = Some ''https://x/c.png'', d_width = Some 1024, d_height = Some 1024\<rparr>,
          \<lparr>d_id = ''a'', d_url = Some ''https://x/a.png'', d_width = Some 1024, d_height = Some 1024\<rparr>,
          \<lparr>d_id = ''b'', d_url = Some ''https://x/b.png'', d_width = Some 1024, d_height = Some 1024\<rparr>]
   \<and> fst (img2img_assets (scenario_provider ''success'' 0 [] []) [''c'', ''a'', ''b''] [] world0) =
     Inr [\<lparr>d_id = ''c'', d_url = Some ''https://x/c.png'', d_width = None, d_height = None\<rparr>,
          \<lparr>d_id = ''a'', d_url = Some ''https://x/a.png'', d_width = None, d_height = None\<rparr>,
          \<lparr>d_id = ''b'', d_url = Some ''https://x/b.png'', d_width = None, d_height = None\<rparr>]
   \<and> sent (snd (txt2img_assets (scenario_provider ''success'' 0 [] []) [''c'', ''a'', ''b''] [] world0)) =
     [asset_request ''c'', asset_request ''a'', asset_request ''b'']
   \<and> sent (snd (img2img_assets (scenario_provider ''success'' 0 [] []) [''c'', ''a'', ''b''] [] world0)) =
     [asset_request ''c'', asset_request ''a'', asset_request ''b'']"
  using resolution_in_order [of "scenario_provider ''success'' 0 [] []" "[''c'', ''a'', ''b'']" world0 example_asset]
  by (simp add: scenario_provider_def scenarioRequest_def res_ok_def example_asset_def
      asset_request_def world0_def)

text \<open>
  Claim C6. When the loop has resolved the ids before \<open>a\<close> and the request for \<open>a\<close>
  fails, the whole resolution fails with that error, in the world of the failed request:
  the descriptors gathered so far are dropped and the ids after \<open>a\<close> are not requested.
  A resolution that returns has one descriptor for every id, never fewer. The handlers
  \<^verbatim>\<open>txt2img\<close> and \<^verbatim>\<open>img2img\<close> hand that failure to their caller as it is.
\<close>

theorem resolution_all_or_nothing:
  "(\<forall>ds1 w1 e w2.
       txt2img_assets P pre [] w = (Inr ds1, w1)
       \<and> scenarioRequest P ''GET'' (''/assets/'' @ a) None w1 = (Inl e, w2) \<longrightarrow>
       txt2img_assets P (pre @ a # post) [] w = (Inl e, w2))
   \<and> (\<forall>ds1 w1 e w2.
       img2img_assets P pre [] w = (Inr ds1, w1)
       \<and> scenarioRequest P ''GET'' (''/assets/'' @ a) None w1 = (Inl e, w2) \<longrightarrow>
       img2img_assets P (pre @ a # post) [] w = (Inl e, w2))
   \<and> (\<forall>ds w'. txt2img_assets P ids [] w = (Inr ds, w') \<longrightarrow> length ds = length ids)
   \<and> (\<forall>ds w'. img2img_assets P ids [] w = (Inr ds, w') \<longrightarrow> length ds = length ids)
   \<and> (\<forall>submitted w1 job w2 ds1 w3 e w4.
       scenarioRequest P ''POST'' ''/generate/txt2img''
         (Some (txt2img_body prompt modelId numSamples width height negativePrompt)) w =
         (Inr (JobPayload submitted), w1)
       \<and> waitForJob P (jobId submitted) None w1 = (Inr job, w2)
       \<and> metadata_assetIds job = Some (pre @ a # post)
       \<and> txt2img_assets P pre [] w2 = (Inr ds1, w3)
       \<and> scenarioRequest P ''GET'' (''/assets/'' @ a) None w3 = (Inl e, w4) \<longrightarrow>
       txt2img P prompt modelId numSamples width height negativePrompt w = (Inl e, w4))
   \<and> (\<forall>submitted w1 job w2 ds1 w3 e w4.
       scenarioRequest P ''POST'' ''/generate/img2img''
         (Some (img2img_body prompt imageUrl modelId strength)) w =
         (Inr (JobPayload submitted), w1)
       \<and> waitForJob P (jobId submitted) None w1 = (Inr job, w2)
       \<and> metadata_assetIds job = Some (pre @ a # post)
       \<and> img2img_assets P pre [] w2 = (Inr ds1, w3)
       \<and> scenarioRequest P ''GET'' (''/assets/'' @ a) None w3 = (Inl e, w4) \<longrightarrow>
       img2img P prompt imageUrl modelId strength w = (Inl e, w4))"
proof (intro conjI allI impI)
  fix ds1 w1 e w2
  assume "txt2img_assets P pre [] w = (Inr ds1, w1)
          \<and> scenarioRequest P ''GET'' (''/assets/'' @ a) None w1 = (Inl e, w2)"
  then show "txt2img_assets P (pre @ a # post) [] w = (Inl e, w2)"
    by (simp add: txt2img_assets_append)
next
  fix ds1 w1 e w2
  assume "img2img_assets P pre [] w = (Inr ds1, w1)
          \<and> scenarioRequest P ''GET'' (''/assets/'' @ a) None w1 = (Inl e, w2)"
  then show "img2img_assets P (pre @ a # post) [] w = (Inl e, w2)"
    by (simp add: img2img_assets_append)
next
  fix ds w'
  assume "txt2img_assets P ids [] w = (Inr ds, w')"
  from txt2img_assets_ids [OF this] have "map d_id ds = ids" by simp
  then show "length ds = length ids" by (metis length_map)
next
  fix ds w'
  assume "img2img_assets P ids [] w = (Inr ds, w')"
  from img2img_assets_ids [OF this] have "map d_id ds = ids" by simp
  then show "length ds = length ids" by (metis length_map)
next
  fix submitted w1 job w2 ds1 w3 e w4
  assume h: "scenarioRequest P ''POST'' ''/generate/txt2img''
         (Some (txt2img_body prompt modelId numSamples width height negativePrompt)) w =
         (Inr (JobPayload submitted), w1)
       \<and> waitForJob P (jobId submitted) None w1 = (Inr job, w2)
       \<and> metadata_assetIds job = Some (pre @ a # post)
       \<and> txt2img_assets P pre [] w2 = (Inr ds1, w3)
       \<and> scenarioRequest P ''GET'' (''/assets/'' @ a) None w3 = (Inl e, w4)"
  then have "txt2img_assets P (pre @ a # post) [] w2 = (Inl e, w4)"
    by (simp add: txt2img_assets_append)
  with h show "txt2img P prompt modelId numSamples width height negativePrompt w = (Inl e, w4)"
    by (simp add: txt2img_def)
next
  fix submitted w1 job w2 ds1 w3 e w4
  assume h: "scenarioRequest P ''POST'' ''/generate/img2img''
         (Some (img2img_body prompt imageUrl modelId strength)) w =
         (Inr (JobPayload submitted), w1)
       \<and> waitForJob P (jobId submitted) None w1 = (Inr job, w2)
       \<and> metadata_assetIds job = Some (pre @ a # post)
       \<and> img2img_assets P pre [] w2 = (Inr ds1, w3)
       \<and> scenarioRequest P ''GET'' (''/assets/'' @ a) None w3 = (Inl e, w4)"
  then have "img2img_assets P (pre @ a # post) [] w2 = (Inl e, w4)"
    by (simp add: img2img_assets_append)
  with h show "img2img P prompt imageUrl modelId strength w = (Inl e, w4)"
    by (simp add: img2img_def)
qed

theorem resolution_all_or_nothing_witness:
  "txt2img_assets (scenario_provider ''success'' 0 [''a1'', ''a2'', ''a3''] [''a2''])
       [''a1'', ''a2'', ''a3''] [] world0 =
     (Inl (ScenarioApiError 404 ''not found''),
      \<lparr>now = 60, sent = [asset_request ''a1'', asset_request ''a2'']\<rparr>)
   \<and> img2img_assets (scenario_provider ''success'' 0 [''a1'', ''a2'', ''a3''] [''a2''])
       [''a1'', ''a2'', ''a3''] [] world0 =
     (Inl (ScenarioApiError 404 ''not found''),
      \<lparr>now = 60, sent = [asset_request ''a1'', asset_request ''a2'']\<rparr>)
   \<and> length (projr (fst (txt2img_assets (scenario_provider ''success'' 0 [''a1'', ''a2'', ''a3''] [''a2''])
       [''a1'', ''a3''] [] world0))) = 2
   \<and> length (projr (fst (img2img_assets (scenario_provider ''success'' 0 [''a1'', ''a2'', ''a3''] [''a2''])
       [''a1'', ''a3''] [] world0))) = 2
   \<and> fst (txt2img (scenario_provider ''success'' 0 [''a1'', ''a2'', ''a3''] [''a2''])
       ''a cat'' None (Some 3) None None None world0) =
     Inl (ScenarioApiError 404 ''not found'')
   \<and> map req_endpoint (sent (snd (txt2img (scenario_provider ''success'' 0 [''a1'', ''a2'', ''a3''] [''a2''])
       ''a cat'' None (Some 3) None None None world0))) =
     [''/generate/txt2img'', ''/jobs/j1'', ''/assets/a1'', ''/assets/a2'']
   \<and> fst (img2img (scenario_provider ''success'' 0 [''a1'', ''a2'', ''a3''] [''a2''])
       ''a cat'' ''https://x/src.png'' None None world0) =
     Inl (ScenarioApiError 404 ''not found'')"
  using resolution_all_or_nothing [where P = "scenario_provider ''success'' 0 [''a1'', ''a2'', ''a3''] [''a2'']"
      and pre = "[''a1'']" and w = world0 and a = "''a2''" and post = "[''a3'']"
      and ids = "[''a1'', ''a3'']" and prompt = "''a cat''" and modelId = None
      and numSamples = "Some 3" and width = None and height = None and negativePrompt = None
      and imageUrl = "''https://x/src.png''" and strength = None]
  by (simp add: scenario_provider_def scenarioRequest_def Let_def res_ok_def example_asset_def
      not_found_def asset_request_def world0_def waitForJob_def waitForJob_loop.simps)

section \<open>Polling\<close>

lemma loop_success:
  assumes "now w - s < d"
    and "scenarioRequest P ''GET'' (''/jobs/'' @ j) None w = (Inr (JobPayload jb), w1)"
    and "status jb = ''success''"
  shows "waitForJob_loop P j d s w = (Inr jb, w1)"
  using assms by (simp add: waitForJob_loop.simps [of P j d s w])

lemma loop_failed:
  assumes "now w - s < d"
    and "scenarioRequest P ''GET'' (''/jobs/'' @ j) None w = (Inr (JobPayload jb), w1)"
    and "status jb = ''failed''"
  shows "waitForJob_loop P j d s w = (Inl (JobFailed jb), w1)"
  using assms by (simp add: waitForJob_loop.simps [of P j d s w])

lemma loop_pending:
  assumes "now w - s < d"
    and "scenarioRequest P ''GET'' (''/jobs/'' @ j) None w = (Inr result, w1)"
    and "payload_job result = Some jb"
    and "status jb \<noteq> ''success''" and "status jb \<noteq> ''failed''"
  shows "waitForJob_loop P j d s w = waitForJob_loop P j d s (w1\<lparr>now := now w1 + 2000\<rparr>)"
  using assms by (simp add: waitForJob_loop.simps [of P j d s w])

lemma pending_polls_now: "pending_polls P j n w = Some w' \<Longrightarrow> now w \<le> now w'"
proof (induction n arbitrary: w)
  case 0
  then show ?case by simp
next
  case (Suc n)
  obtain r w1 where req: "scenarioRequest P ''GET'' (''/jobs/'' @ j) None w = (r, w1)"
    by (cases "scenarioRequest P ''GET'' (''/jobs/'' @ j) None w")
  then have "now w \<le> now w1" by (rule scenarioRequest_now)
  moreover from Suc.prems req
  have "pending_polls P j n (w1\<lparr>now := now w1 + 2000\<rparr>) = Some w'"
    by (auto split: sum.splits option.splits if_splits)
  from Suc.IH [OF this] have "now w1 + 2000 \<le> now w'" by simp
  ultimately show ?case by simp
qed

lemma pending_polls_sent:
  "pending_polls P j n w = Some w' \<Longrightarrow> sent w' = sent w @ replicate n (job_request j)"
proof (induction n arbitrary: w)
  case 0
  then show ?case by simp
next
  case (Suc n)
  obtain r w1 where req: "scenarioRequest P ''GET'' (''/jobs/'' @ j) None w = (r, w1)"
    by (cases "scenarioRequest P ''GET'' (''/jobs/'' @ j) None w")
  then have w1: "sent w1 = sent w @ [job_request j]"
    by (simp add: scenarioRequest_sent' job_request_def)
  from Suc.prems req
  have "pending_polls P j n (w1\<lparr>now := now w1 + 2000\<rparr>) = Some w'"
    by (auto split: sum.splits option.splits if_splits)
  from Suc.IH [OF this] w1 show ?case
    by (simp add: replicate_append_same)
qed

lemma loop_skip:
  "pending_polls P j n w = Some w' \<Longrightarrow> now w' - s < d \<Longrightarrow>
     waitForJob_loop P j d s w = waitForJob_loop P j d s w'"
proof (induction n arbitrary: w)
  case 0
  then show ?case by simp
next
  case (Suc n)
  obtain r w1 where req: "scenarioRequest P ''GET'' (''/jobs/'' @ j) None w = (r, w1)"
    by (cases "scenarioRequest P ''GET'' (''/jobs/'' @ j) None w")
  from Suc.prems(1) req obtain result jb where r: "r = Inr result"
    and jb: "payload_job result = Some jb"
    and st: "status jb \<noteq> ''success''" "status jb \<noteq> ''failed''"
    and rest: "pending_polls P j n (w1\<lparr>now := now w1 + 2000\<rparr>) = Some w'"
    by (auto split: sum.splits option.splits if_splits)
  from pending_polls_now [OF Suc.prems(1)] Suc.prems(2) have "now w - s < d"
    by simp
  from loop_pending [OF this req [unfolded r] jb st]
  have "waitForJob_loop P j d s w = waitForJob_loop P j d s (w1\<lparr>now := now w1 + 2000\<rparr>)" .
  also from Suc.IH [OF rest Suc.prems(2)]
  have "\<dots> = waitForJob_loop P j d s w'" .
  finally show ?case .
qed

text \<open>
  Claim C3. When the polled status sequence is \<open>n\<close> non-terminal answers followed, at a
  query sent before the deadline has elapsed, by a job with status \<^verbatim>\<open>success\<close>, then
  \<^verbatim>\<open>waitForJob\<close> returns that job in the world right after that query: it has sent
  exactly those \<open>n + 1\<close> status queries and nothing after the one that saw the success.
\<close>

theorem waitForJob_success:
  assumes "pending_polls P j n w = Some wn"
    and "now wn - now w < (case maxWaitMs of None \<Rightarrow> 120000 | Some m \<Rightarrow> m)"
    and "scenarioRequest P ''GET'' (''/jobs/'' @ j) None wn = (Inr (JobPayload jb), w')"
    and "status jb = ''success''"
  shows "waitForJob P j maxWaitMs w = (Inr jb, w')
         \<and> sent w' = sent w @ replicate (Suc n) (job_request j)"
proof
  from loop_skip [OF assms(1,2)] loop_success [OF assms(2,3,4)]
  show "waitForJob P j maxWaitMs w = (Inr jb, w')"
    by (simp add: waitForJob_def)
  from scenarioRequest_sent' [OF assms(3)] pending_polls_sent [OF assms(1)]
  show "sent w' = sent w @ replicate (Suc n) (job_request j)"
    by (simp add: job_request_def replicate_append_same)
qed

text \<open>
  Claim C4. When the polled status sequence is \<open>n\<close> non-terminal answers followed, at a
  query sent before the deadline has elapsed, by a job with status \<^verbatim>\<open>failed\<close>, then
  \<^verbatim>\<open>waitForJob\<close> fails with the error that carries that job, in the world right
  after that query, whatever remains of the deadline: no wait and no further query.
\<close>

theorem waitForJob_failed:
  assumes "pending_polls P j n w = Some wn"
    and "now wn - now w < (case maxWaitMs of None \<Rightarrow> 120000 | Some m \<Rightarrow> m)"
    and "scenarioRequest P ''GET'' (''/jobs/'' @ j) None wn = (Inr (JobPayload jb), w')"
    and "status jb = ''failed''"
  shows "waitForJob P j maxWaitMs w = (Inl (JobFailed jb), w')
         \<and> sent w' = sent w @ replicate (Suc n) (job_request j)"
proof
  from loop_skip [OF assms(1,2)] loop_failed [OF assms(2,3,4)]
  show "waitForJob P j maxWaitMs w = (Inl (JobFailed jb), w')"
    by (simp add: waitForJob_def)
  from scenarioRequest_sent' [OF assms(3)] pending_polls_sent [OF assms(1)]
  show "sent w' = sent w @ replicate (Suc n) (job_request j)"
    by (simp add: job_request_def replicate_append_same)
qed


theorem waitForJob_success_witness:
  "waitForJob (scenario_provider ''success'' 4000 [''a1''] []) ''j1'' None \<lparr>now = 100, sent = []\<rparr> =
     (Inr \<lparr>jobId = ''j1'', status = ''success'', metadata_assetIds = Some [''a1'']\<rparr>,
      \<lparr>now = 4250, sent = [job_request ''j1'', job_request ''j1'', job_request ''j1'']\<rparr>)"
  using waitForJob_success [of "scenario_provider ''success'' 4000 [''a1''] []" "''j1''" 2
      "\<lparr>now = 100, sent = []\<rparr>" "\<lparr>now = 4200, sent = [job_request ''j1'', job_request ''j1'']\<rparr>" None
      "\<lparr>jobId = ''j1'', status = ''success'', metadata_assetIds = Some [''a1'']\<rparr>"
      "\<lparr>now = 4250, sent = [job_request ''j1'', job_request ''j1'', job_request ''j1'']\<rparr>"]
  by (simp add: numeral_2_eq_2 scenarioRequest_def Let_def scenario_provider_def res_ok_def job_request_def)

theorem waitForJob_failed_witness:
  "waitForJob (scenario_provider ''failed'' 2000 [] []) ''j1'' (Some 180000) \<lparr>now = 100, sent = []\<rparr> =
     (Inl (JobFailed \<lparr>jobId = ''j1'', status = ''failed'', metadata_assetIds = Some []\<rparr>),
      \<lparr>now = 2200, sent = [job_request ''j1'', job_request ''j1'']\<rparr>)"
  using waitForJob_failed [of "scenario_provider ''failed'' 2000 [] []" "''j1''" 1
      "\<lparr>now = 100, sent = []\<rparr>" "\<lparr>now = 2150, sent = [job_request ''j1'']\<rparr>" "Some 180000"
      "\<lparr>jobId = ''j1'', status = ''failed'', metadata_assetIds = Some []\<rparr>"
      "\<lparr>now = 2200, sent = [job_request ''j1'', job_request ''j1'']\<rparr>"]
  by (simp add: scenarioRequest_def Let_def scenario_provider_def res_ok_def job_request_def)





section \<open>The orchestrated operations\<close>













section \<open>Routing sessions\<close>

lemma run_append: "run (es1 @ es2) g = run es2 (run es1 g)"
  by (simp add: run_def)














end
